theory Spec2Isabelle
  imports Complex_Main
begin

section \<open>Contract Intelligence API: the answer-scoring evaluation harness\<close>

text \<open>
  A shallow embedding of \<^verbatim>\<open>eval/run_eval.py\<close>. Conventions of the model:
  \<^item> a Python \<^verbatim>\<open>float\<close> is a \<^typ>\<open>real\<close>: the arithmetic is exact, rounding of
    IEEE doubles is not modelled;
  \<^item> a Python \<^verbatim>\<open>str\<close> is a \<^typ>\<open>string\<close> of bytes (UTF-8); \<^verbatim>\<open>str.lower\<close> maps the
    ASCII capitals to small letters and leaves every other byte alone;
  \<^item> a Python \<^verbatim>\<open>dict\<close> built by a literal is an association list, keys in the order
    of the literal;
  \<^item> everything behind \<^verbatim>\<open>requests\<close> and the file system is an explicit environment;
    what the script prints is left out, except the grade.
\<close>

subsection \<open>Strings\<close>

definition lower_char :: "char \<Rightarrow> char" where
  "lower_char c =
     (case map_of (zip ''ABCDEFGHIJKLMNOPQRSTUVWXYZ'' ''abcdefghijklmnopqrstuvwxyz'') c of
        Some d \<Rightarrow> d
      | None \<Rightarrow> c)"

definition lower :: "string \<Rightarrow> string" where
  "lower s = map lower_char s"

text \<open>\<^verbatim>\<open>s.startswith(p)\<close>, the step of the substring test.\<close>

primrec starts_with :: "string \<Rightarrow> string \<Rightarrow> bool" where
  "starts_with s [] = True"
| "starts_with s (p # ps) = (case s of [] \<Rightarrow> False | c # cs \<Rightarrow> c = p \<and> starts_with cs ps)"

text \<open>\<^verbatim>\<open>p in s\<close> on strings: \<open>p\<close> occurs in \<open>s\<close> as a contiguous substring.\<close>

primrec contains :: "string \<Rightarrow> string \<Rightarrow> bool" where
  "contains [] p = (p = [])"
| "contains (c # cs) p = (starts_with (c # cs) p \<or> contains cs p)"

text \<open>\<^verbatim>\<open>str(n)\<close> for a natural number, used by the f-string of the error reason.\<close>

definition digit_char :: "nat \<Rightarrow> char" where
  "digit_char d = ''0123456789'' ! d"

function str_nat :: "nat \<Rightarrow> string" where
  "str_nat n = (if n < 10 then [digit_char n] else str_nat (n div 10) @ [digit_char (n mod 10)])"
  by pat_completeness auto
termination
  by (relation "measure id") auto

declare str_nat.simps [simp del]

subsection \<open>JSON values, questions and responses\<close>

datatype jvalue =
    JNull
  | JBool bool
  | JInt int
  | JFloat real
  | JStr string
  | JList "jvalue list"

type_synonym pydict = "(string \<times> jvalue) list"

datatype py_error =
    ConnectionError
  | ReadTimeout
  | ZeroDivisionError
  | KeyError string
  | TypeError

text \<open>
  An entry of the evaluation set: \<^verbatim>\<open>question['id']\<close>, \<^verbatim>\<open>question['question']\<close> and
  \<^verbatim>\<open>question['expected_keywords']\<close>.
\<close>

record eval_question =
  id_q :: jvalue
  question :: string
  expected_keywords :: "string list"

text \<open>
  The body of an \<^verbatim>\<open>/ask\<close> response, \<^verbatim>\<open>response.json()\<close>. Either key may be missing:
  the script reads both with \<^verbatim>\<open>data.get\<close> and a default.
\<close>

record ask_data =
  answer :: "string option"
  citations :: "jvalue list option"

record ask_response =
  status_code :: nat
  json :: ask_data

subsection \<open>Scoring one answer (\<^verbatim>\<open>evaluate_question\<close>, lines 69 to 97)\<close>

text \<open>\<^verbatim>\<open>data.get('answer', '')\<close> and \<^verbatim>\<open>data.get('citations', [])\<close>.\<close>

definition get_answer :: "ask_data \<Rightarrow> string" where
  "get_answer data = (case answer data of Some a \<Rightarrow> a | None \<Rightarrow> [])"

definition get_citations :: "ask_data \<Rightarrow> jvalue list" where
  "get_citations data = (case citations data of Some cs \<Rightarrow> cs | None \<Rightarrow> [])"

text \<open>
  The loop of lines 77 to 79 over the lower-cased answer \<open>ans\<close>: a keyword is appended
  each time its lower-cased form occurs in \<open>ans\<close>, in the order of the list and once per
  entry of the list.
\<close>

primrec match_keywords :: "string list \<Rightarrow> string \<Rightarrow> string list \<Rightarrow> string list" where
  "match_keywords [] ans matched_keywords = matched_keywords"
| "match_keywords (keyword # rest) ans matched_keywords =
     match_keywords rest ans
       (if contains ans (lower keyword) then matched_keywords @ [keyword] else matched_keywords)"

text \<open>Lines 73 and 82 to 83: the score before penalty and bonus.\<close>

definition base_score :: "string list \<Rightarrow> string list \<Rightarrow> real" where
  "base_score expected matched_keywords =
     (if length expected > 0 then real (length matched_keywords) / real (length expected)
      else 0.0)"

definition negative_phrases :: "string list" where
  "negative_phrases = [''not found'', ''cannot find'', ''no information'', ''not in the document'']"

text \<open>Line 87: \<^verbatim>\<open>any(phrase in answer for phrase in negative_phrases)\<close>.\<close>

definition has_negative :: "string \<Rightarrow> bool" where
  "has_negative ans = list_ex (\<lambda>phrase. contains ans phrase) negative_phrases"

text \<open>Lines 89 to 97: penalty, then bonus, then the cap at 1.\<close>

definition final_score :: "real \<Rightarrow> bool \<Rightarrow> bool \<Rightarrow> real" where
  "final_score score0 negative cited =
     (let score1 = (if negative then score0 * 0.5 else score0);
          score2 = (if cited then score1 + 0.1 else score1)
      in min score2 1.0)"

text \<open>The two dictionaries \<^verbatim>\<open>evaluate_question\<close> returns (lines 63 to 67 and 106 to 113).\<close>

definition error_result :: "eval_question \<Rightarrow> nat \<Rightarrow> pydict" where
  "error_result q code =
     [(''question_id'', id_q q),
      (''score'', JFloat 0.0),
      (''reason'', JStr (''API error: '' @ str_nat code))]"

definition scored_result :: "eval_question \<Rightarrow> ask_data \<Rightarrow> pydict" where
  "scored_result q data =
     (let ans = lower (get_answer data);
          matched_keywords = match_keywords (expected_keywords q) ans [];
          score = base_score (expected_keywords q) matched_keywords;
          has_citations = (length (get_citations data) > 0);
          score = final_score score (has_negative ans) has_citations
      in [(''question_id'', id_q q),
          (''question'', JStr (question q)),
          (''answer'', JStr (get_answer data)),
          (''score'', JFloat score),
          (''matched_keywords'', JList (map JStr matched_keywords)),
          (''has_citations'', JBool has_citations)])"

text \<open>Lines 61 to 113, given the response of the request.\<close>

definition result_of_response :: "eval_question \<Rightarrow> ask_response \<Rightarrow> pydict" where
  "result_of_response q response =
     (if status_code response \<noteq> 200 then error_result q (status_code response)
      else scored_result q (json response))"

subsection \<open>The service boundary\<close>

text \<open>
  What the script cannot decide by itself: the outcome of the health probe (an exception
  of \<^verbatim>\<open>requests.get\<close> or a status code), the files under \<^verbatim>\<open>uploads/\<close>, the answers of
  \<^verbatim>\<open>/ingest\<close> and \<^verbatim>\<open>/ask\<close> (the service has a state \<open>'s\<close>, so an answer may depend on
  the requests made before), and the content of \<^verbatim>\<open>eval/qa_eval_set.json\<close>.
\<close>

record ingest_response =
  ingest_status :: nat
  ingest_document_ids :: "string list option"

record 's env =
  healthz :: "py_error + nat"
  open_rb :: "string \<Rightarrow> string option"
  ingest :: "'s \<Rightarrow> (string \<times> string) list \<Rightarrow> ingest_response \<times> 's"
  ask :: "'s \<Rightarrow> string \<Rightarrow> ask_response \<times> 's"
  load_eval_set :: "eval_question list"

datatype event =
    Probe
  | Ingest "string list"
  | Ask string
  | PrintGrade string
  | WriteSummary

record summary =
  average_score :: real
  total_questions :: nat
  pass_rate :: real
  results :: "pydict list"

text \<open>
  The state a run works on: the service, the requests and outputs so far, and the
  content of \<^verbatim>\<open>eval/eval_results.json\<close> (\<open>None\<close> while the file does not exist).
\<close>

record 's world =
  service :: 's
  trace :: "event list"
  artifact :: "summary option"

subsection \<open>\<^verbatim>\<open>upload_test_documents\<close>\<close>

definition test_files :: "string list" where
  "test_files = [''uploads/Sample NDA.pdf'', ''uploads/NDA.pdf'']"

text \<open>\<^verbatim>\<open>filepath.split('/')[-1]\<close>: what follows the last slash.\<close>

definition basename :: "string \<Rightarrow> string" where
  "basename filepath = rev (takeWhile (\<lambda>c. c \<noteq> CHR ''/'') (rev filepath))"

text \<open>Lines 28 to 34: a file that is not found is skipped.\<close>

primrec read_files ::
  "(string \<Rightarrow> string option) \<Rightarrow> string list \<Rightarrow> (string \<times> string) list \<Rightarrow> (string \<times> string) list"
where
  "read_files opn [] files = files"
| "read_files opn (filepath # rest) files =
     read_files opn rest
       (case opn filepath of
          Some content \<Rightarrow> files @ [(basename filepath, content)]
        | None \<Rightarrow> files)"

definition upload_test_documents :: "'s env \<Rightarrow> 's world \<Rightarrow> string list \<times> 's world" where
  "upload_test_documents env w =
     (let files = read_files (open_rb env) test_files []
      in if files = [] then ([], w)
         else
           (let (response, s') = ingest env (service w) files;
                w' = w\<lparr>service := s', trace := trace w @ [Ingest (map fst files)]\<rparr>
            in if ingest_status response = 200
               then (case ingest_document_ids response of Some ids \<Rightarrow> ids | None \<Rightarrow> [], w')
               else ([], w')))"

subsection \<open>\<^verbatim>\<open>evaluate_question\<close> and the loop over the evaluation set\<close>

text \<open>
  The request carries the question text only; \<open>document_ids\<close> is a parameter of the
  function that its body never reads.
\<close>

definition evaluate_question ::
  "'s env \<Rightarrow> eval_question \<Rightarrow> string list \<Rightarrow> 's world \<Rightarrow> pydict \<times> 's world"
where
  "evaluate_question env q document_ids w =
     (let (response, s') = ask env (service w) (question q)
      in (result_of_response q response,
          w\<lparr>service := s', trace := trace w @ [Ask (question q)]\<rparr>))"

text \<open>Lines 144 to 147.\<close>

primrec evaluate_all ::
  "'s env \<Rightarrow> eval_question list \<Rightarrow> string list \<Rightarrow> pydict list \<Rightarrow> 's world
     \<Rightarrow> pydict list \<times> 's world"
where
  "evaluate_all env [] doc_ids rs w = (rs, w)"
| "evaluate_all env (q # qs) doc_ids rs w =
     (let (result, w') = evaluate_question env q doc_ids w
      in evaluate_all env qs doc_ids (rs @ [result]) w')"

subsection \<open>Aggregation and grade (lines 150 to 179)\<close>

text \<open>\<^verbatim>\<open>r['score']\<close> as a number.\<close>

definition score_of :: "pydict \<Rightarrow> py_error + real" where
  "score_of r =
     (case map_of r ''score'' of
        None \<Rightarrow> Inl (KeyError ''score'')
      | Some (JFloat x) \<Rightarrow> Inr x
      | Some (JInt i) \<Rightarrow> Inr (real_of_int i)
      | Some _ \<Rightarrow> Inl TypeError)"

primrec scores :: "pydict list \<Rightarrow> py_error + real list" where
  "scores [] = Inr []"
| "scores (r # rs) =
     (case score_of r of
        Inl e \<Rightarrow> Inl e
      | Inr x \<Rightarrow> (case scores rs of Inl e \<Rightarrow> Inl e | Inr xs \<Rightarrow> Inr (x # xs)))"

definition grade :: "real \<Rightarrow> string" where
  "grade avg_score =
     (if avg_score \<ge> 0.8 then [CHR 0xF0, CHR 0x9F, CHR 0x8C, CHR 0x9F] @ '' EXCELLENT''
      else if avg_score \<ge> 0.7 then [CHR 0xE2, CHR 0x9C, CHR 0x85] @ '' GOOD''
      else if avg_score \<ge> 0.5
        then [CHR 0xE2, CHR 0x9A, CHR 0xA0, CHR 0xEF, CHR 0xB8, CHR 0x8F] @ ''  FAIR''
      else [CHR 0xE2, CHR 0x9D, CHR 0x8C] @ '' NEEDS IMPROVEMENT'')"

text \<open>
  The average, the pass rate and the grade of a list of results. The sum is taken
  first, so a result without a score fails before the division does.
\<close>

definition summarize :: "pydict list \<Rightarrow> py_error + (summary \<times> string)" where
  "summarize rs =
     (case scores rs of
        Inl e \<Rightarrow> Inl e
      | Inr xs \<Rightarrow>
          if length rs = 0 then Inl ZeroDivisionError
          else
            (let avg_score = sum_list xs / real (length rs)
             in Inr (\<lparr>average_score = avg_score,
                      total_questions = length rs,
                      pass_rate = real (length (filter (\<lambda>x. x \<ge> 0.7) xs)) / real (length rs),
                      results = rs\<rparr>,
                     grade avg_score)))"

subsection \<open>\<^verbatim>\<open>run_evaluation\<close>\<close>

datatype py_exit =
    SysExit int
  | Uncaught py_error
  | Returned

definition run_evaluation :: "'s env \<Rightarrow> 's world \<Rightarrow> py_exit \<times> 's world" where
  "run_evaluation env w0 =
     (let w1 = w0\<lparr>trace := trace w0 @ [Probe]\<rparr>
      in case healthz env of
           Inl ConnectionError \<Rightarrow> (SysExit 1, w1)
         | Inl e \<Rightarrow> (Uncaught e, w1)
         | Inr code \<Rightarrow>
             if code \<noteq> 200 then (SysExit 1, w1)
             else
               (let (doc_ids, w2) = upload_test_documents env w1
                in if doc_ids = [] then (SysExit 1, w2)
                   else
                     (let eval_set = load_eval_set env;
                          (rs, w3) = evaluate_all env eval_set doc_ids [] w2
                      in case summarize rs of
                           Inl e \<Rightarrow> (Uncaught e, w3)
                         | Inr (sm, g) \<Rightarrow>
                             (Returned,
                              w3\<lparr>trace := trace w3 @ [PrintGrade g, WriteSummary],
                                 artifact := Some sm\<rparr>))))"

text \<open>
  The exit status of the process: the argument of \<^verbatim>\<open>sys.exit\<close>, 1 after an exception
  nobody catches, 0 when \<^verbatim>\<open>run_evaluation\<close> returns.
\<close>

fun exit_code :: "py_exit \<Rightarrow> int" where
  "exit_code (SysExit n) = n"
| "exit_code (Uncaught e) = 1"
| "exit_code Returned = 0"

subsection \<open>A small evaluation run\<close>

text \<open>
  Two questions against a service that answers the first with half of the keywords, a
  deflecting phrase and a citation, and fails on the second.
\<close>

definition example_questions :: "eval_question list" where
  "example_questions =
     [\<lparr>id_q = JInt 1, question = ''Which law governs the agreement?'',
       expected_keywords = [''California'', ''two years'']\<rparr>,
      \<lparr>id_q = JInt 2, question = ''What is the term?'',
       expected_keywords = [''two years'']\<rparr>]"

definition example_ask :: "nat \<Rightarrow> string \<Rightarrow> ask_response \<times> nat" where
  "example_ask n qu =
     (if qu = ''What is the term?''
      then (\<lparr>status_code = 500, json = \<lparr>answer = None, citations = None\<rparr>\<rparr>, Suc n)
      else (\<lparr>status_code = 200,
             json = \<lparr>answer = Some ''The State of California; the term was not found'',
                     citations = Some [JStr ''NDA.pdf'']\<rparr>\<rparr>, Suc n))"

definition example_env :: "nat env" where
  "example_env =
     \<lparr>healthz = Inr 200,
      open_rb = (\<lambda>p. if p = ''uploads/NDA.pdf'' then Some ''%PDF-1.4'' else None),
      ingest = (\<lambda>n files. (\<lparr>ingest_status = 200, ingest_document_ids = Some [''doc-1'']\<rparr>, Suc n)),
      ask = example_ask,
      load_eval_set = example_questions\<rparr>"

definition example_world :: "nat world" where
  "example_world = \<lparr>service = 0, trace = [], artifact = None\<rparr>"

section \<open>The field extraction engine\<close>

text \<open>
  Modelled from the spec: \<^verbatim>\<open>ExtractionService.extract_fields\<close> of
  \<^verbatim>\<open>app/services/extraction_service.py\<close> and \<^verbatim>\<open>ExtractedFields\<close> of \<^verbatim>\<open>app/models.py\<close>
  are missing; only their tests are at hand. The model follows the specification: one
  scanner per field, applied independently to the truncated text; a scanner finds a
  value, finds nothing or fails, and a failure counts as "not found"; parties are
  deduplicated by normalized name in first-seen order; the empty text gives the empty
  value. The scanners, the normalization of names and the length threshold are
  parameters, since the specification leaves the patterns open. Truncation keeps the
  head and the tail, the variant the specification recommends.
\<close>

datatype 'a attempt =
    Found 'a
  | NotFound
  | PatternError

record ExtractedFields =
  parties :: "string list"
  effective_date :: "(int \<times> int \<times> int) option"
  governing_law :: "string option"
  liability_cap :: "(int \<times> string) option"
  signatures :: "(string \<times> string \<times> string) list"

record patterns =
  normalize :: "string \<Rightarrow> string"
  scan_parties :: "string \<Rightarrow> string list attempt"
  scan_effective_date :: "string \<Rightarrow> (int \<times> int \<times> int) attempt"
  scan_governing_law :: "string \<Rightarrow> string attempt"
  scan_liability_cap :: "string \<Rightarrow> (int \<times> string) attempt"
  scan_signatures :: "string \<Rightarrow> (string \<times> string \<times> string) list attempt"

text \<open>Modelled from the spec: a document longer than the threshold keeps its head and tail.\<close>

definition truncate_text :: "nat \<Rightarrow> string \<Rightarrow> string" where
  "truncate_text limit text =
     (if length text > limit
      then take (limit div 2) text @ drop (length text - (limit - limit div 2)) text
      else text)"

text \<open>Modelled from the spec: the first entry of every normalized name, in order.\<close>

primrec dedup_by :: "(string \<Rightarrow> string) \<Rightarrow> string list \<Rightarrow> string list \<Rightarrow> string list" where
  "dedup_by f seen [] = []"
| "dedup_by f seen (x # xs) =
     (if f x \<in> set seen then dedup_by f seen xs else x # dedup_by f (f x # seen) xs)"

text \<open>Modelled from the spec: a failed or empty scan is an absent field.\<close>

definition optional_field :: "'a attempt \<Rightarrow> 'a option" where
  "optional_field a = (case a of Found v \<Rightarrow> Some v | NotFound \<Rightarrow> None | PatternError \<Rightarrow> None)"

definition list_field :: "'a list attempt \<Rightarrow> 'a list" where
  "list_field a = (case a of Found vs \<Rightarrow> vs | NotFound \<Rightarrow> [] | PatternError \<Rightarrow> [])"

definition empty_fields :: ExtractedFields where
  "empty_fields =
     \<lparr>parties = [], effective_date = None, governing_law = None, liability_cap = None,
      signatures = []\<rparr>"

text \<open>
  Modelled from the spec: \<^verbatim>\<open>extract_fields\<close>. The result is \<open>Inr\<close> of the fields, or
  \<open>Inl\<close> of an exception that leaves the function.
\<close>

definition extract_fields :: "patterns \<Rightarrow> nat \<Rightarrow> string \<Rightarrow> py_error + ExtractedFields" where
  "extract_fields pats limit text =
     (if text = [] then Inr empty_fields
      else
        (let t = truncate_text limit text
         in Inr \<lparr>parties = dedup_by (normalize pats) [] (list_field (scan_parties pats t)),
                 effective_date = optional_field (scan_effective_date pats t),
                 governing_law = optional_field (scan_governing_law pats t),
                 liability_cap = optional_field (scan_liability_cap pats t),
                 signatures = list_field (scan_signatures pats t)\<rparr>))"

text \<open>Modelled from the spec: no party is listed twice under its normalized name.\<close>

definition well_formed :: "patterns \<Rightarrow> ExtractedFields \<Rightarrow> bool" where
  "well_formed pats f = distinct (map (normalize pats) (parties f))"

text \<open>Scanners for a run of the model: one of them fails, one finds a party twice.\<close>

definition example_patterns :: patterns where
  "example_patterns =
     \<lparr>normalize = lower,
      scan_parties = (\<lambda>t. Found [''Acme Corporation'', ''ACME CORPORATION'', ''Tech Solutions Inc'']),
      scan_effective_date = (\<lambda>t. Found (2024, 1, 15)),
      scan_governing_law = (\<lambda>t. PatternError),
      scan_liability_cap = (\<lambda>t. if contains t ''$100,000'' then Found (100000, ''USD'') else NotFound),
      scan_signatures = (\<lambda>t. NotFound)\<rparr>"

section \<open>Properties of the model\<close>

subsection \<open>Substrings and lower case\<close>

lemma starts_with_iff: "starts_with s p \<longleftrightarrow> (\<exists>suf. s = p @ suf)"
  by (induction p arbitrary: s) (auto split: list.splits)

lemma contains_iff: "contains s p \<longleftrightarrow> (\<exists>pre suf. s = pre @ p @ suf)"
proof (induction s)
  case Nil
  then show ?case by auto
next
  case (Cons c cs)
  show ?case
  proof
    assume "contains (c # cs) p"
    then consider "starts_with (c # cs) p" | "contains cs p" by auto
    then show "\<exists>pre suf. c # cs = pre @ p @ suf"
    proof cases
      case 1
      then obtain suf where "c # cs = p @ suf" using starts_with_iff by blast
      then have "c # cs = [] @ p @ suf" by simp
      then show ?thesis by blast
    next
      case 2
      then obtain pre suf where "cs = pre @ p @ suf" using Cons.IH by blast
      then have "c # cs = (c # pre) @ p @ suf" by simp
      then show ?thesis by blast
    qed
  next
    assume "\<exists>pre suf. c # cs = pre @ p @ suf"
    then obtain pre suf where eq: "c # cs = pre @ p @ suf" by blast
    show "contains (c # cs) p"
    proof (cases pre)
      case Nil
      with eq have "starts_with (c # cs) p" using starts_with_iff by auto
      then show ?thesis by simp
    next
      case (Cons a pre')
      with eq have "cs = pre' @ p @ suf" by simp
      then have "contains cs p" using Cons.IH by blast
      then show ?thesis by simp
    qed
  qed
qed

lemma contains_lower: "contains s p \<Longrightarrow> contains (lower s) (lower p)"
  unfolding contains_iff lower_def by (metis map_append)

lemma match_keywords_filter:
  "match_keywords kws ans acc = acc @ filter (\<lambda>k. contains ans (lower k)) kws"
  by (induction kws arbitrary: acc) auto

lemma lower_negative_phrases: "p \<in> set negative_phrases \<Longrightarrow> lower p = p"
  by (auto simp: negative_phrases_def lower_def lower_char_def)

lemma has_negative_iff: "has_negative ans \<longleftrightarrow> (\<exists>p \<in> set negative_phrases. contains ans p)"
  by (simp add: has_negative_def list_ex_iff)

lemma str_nat_404: "str_nat 404 = ''404''"
  by (simp add: str_nat.simps digit_char_def)

subsection \<open>Scores and results\<close>

lemma base_score_bounds:
  "0 \<le> base_score kws (match_keywords kws ans [])" "base_score kws (match_keywords kws ans []) \<le> 1"
proof -
  have "length (filter (\<lambda>k. contains ans (lower k)) kws) \<le> length kws" by simp
  then show "base_score kws (match_keywords kws ans []) \<le> 1"
    by (simp add: base_score_def match_keywords_filter divide_le_eq_1)
  show "0 \<le> base_score kws (match_keywords kws ans [])"
    by (simp add: base_score_def)
qed

lemma final_score_bounds: "0 \<le> s \<Longrightarrow> 0 \<le> final_score s n c \<and> final_score s n c \<le> 1"
  by (simp add: final_score_def Let_def)

lemma score_of_error_result: "score_of (error_result q code) = Inr 0"
  by (simp add: score_of_def error_result_def)

lemma score_of_scored_result:
  "score_of (scored_result q d) =
     Inr (final_score (base_score (expected_keywords q)
                         (match_keywords (expected_keywords q) (lower (get_answer d)) []))
            (has_negative (lower (get_answer d))) (length (get_citations d) > 0))"
  by (simp add: score_of_def scored_result_def Let_def)

lemma score_of_result_bounds:
  "\<exists>x. score_of (result_of_response q r) = Inr x \<and> 0 \<le> x \<and> x \<le> 1"
  using final_score_bounds [OF base_score_bounds(1)]
  by (simp add: result_of_response_def score_of_error_result score_of_scored_result)

lemma evaluate_all_acc:
  "evaluate_all env qs docs rs w =
     (rs @ fst (evaluate_all env qs docs [] w), snd (evaluate_all env qs docs [] w))"
proof (induction qs arbitrary: rs w)
  case Nil
  then show ?case by simp
next
  case (Cons q qs)
  show ?case
    by (simp add: split_beta Let_def Cons.IH [of "rs @ _"] Cons.IH [of "[_]"])
qed

lemma evaluate_all_Cons:
  "evaluate_all env (q # qs) docs [] w =
     (fst (evaluate_question env q docs w) # fst (evaluate_all env qs docs [] (snd (evaluate_question env q docs w))),
      snd (evaluate_all env qs docs [] (snd (evaluate_question env q docs w))))"
  by (simp add: split_beta Let_def evaluate_all_acc [of _ _ _ "[_]"])

declare evaluate_all.simps(2) [simp del]

lemma evaluate_question_fst:
  "fst (evaluate_question env q docs w) = result_of_response q (fst (ask env (service w) (question q)))"
  by (simp add: evaluate_question_def split_beta)

lemma evaluate_question_trace:
  "trace (snd (evaluate_question env q docs w)) = trace w @ [Ask (question q)]"
  by (simp add: evaluate_question_def split_beta)

lemma evaluate_question_artifact:
  "artifact (snd (evaluate_question env q docs w)) = artifact w"
  by (simp add: evaluate_question_def split_beta)

lemma evaluate_all_length: "length (fst (evaluate_all env qs docs [] w)) = length qs"
  by (induction qs arbitrary: w) (simp_all add: evaluate_all_Cons)

lemma evaluate_all_trace:
  "trace (snd (evaluate_all env qs docs [] w)) = trace w @ map (\<lambda>q. Ask (question q)) qs"
  by (induction qs arbitrary: w) (simp_all add: evaluate_all_Cons evaluate_question_trace)

lemma evaluate_all_artifact: "artifact (snd (evaluate_all env qs docs [] w)) = artifact w"
  by (induction qs arbitrary: w) (simp_all add: evaluate_all_Cons evaluate_question_artifact)

lemma question_id_result: "map_of (result_of_response q r) ''question_id'' = Some (id_q q)"
  by (simp add: result_of_response_def error_result_def scored_result_def Let_def)

lemma evaluate_all_question_id:
  "i < length qs \<Longrightarrow> map_of (fst (evaluate_all env qs docs [] w) ! i) ''question_id'' = Some (id_q (qs ! i))"
proof (induction qs arbitrary: w i)
  case Nil
  then show ?case by simp
next
  case (Cons q qs)
  show ?case
  proof (cases i)
    case 0
    then show ?thesis by (simp add: evaluate_all_Cons evaluate_question_fst question_id_result)
  next
    case (Suc j)
    with Cons.prems have "j < length qs" by simp
    from Cons.IH [OF this] Suc show ?thesis by (simp add: evaluate_all_Cons)
  qed
qed

lemma scores_all:
  "(\<And>r. r \<in> set rs \<Longrightarrow> \<exists>x. score_of r = Inr x) \<Longrightarrow> \<exists>xs. scores rs = Inr xs \<and> length xs = length rs"
proof (induction rs)
  case Nil
  then show ?case by simp
next
  case (Cons r rs)
  then obtain x where x: "score_of r = Inr x" by auto
  from Cons obtain xs where xs: "scores rs = Inr xs" "length xs = length rs" by auto
  from x xs show ?case by simp
qed

lemma scores_length: "scores rs = Inr xs \<Longrightarrow> length xs = length rs"
  by (induction rs arbitrary: xs) (auto split: sum.splits)

lemma evaluate_all_has_score:
  "r \<in> set (fst (evaluate_all env qs docs [] w)) \<Longrightarrow> \<exists>x. score_of r = Inr x"
proof (induction qs arbitrary: w)
  case Nil
  then show ?case by simp
next
  case (Cons q qs)
  from Cons.prems consider "r = fst (evaluate_question env q docs w)"
    | "r \<in> set (fst (evaluate_all env qs docs [] (snd (evaluate_question env q docs w))))"
    by (auto simp: evaluate_all_Cons)
  then show ?case
  proof cases
    case 1
    then show ?thesis using score_of_result_bounds [of q] by (auto simp: evaluate_question_fst)
  next
    case 2
    then show ?thesis by (rule Cons.IH)
  qed
qed

lemma summarize_Inr:
  assumes "scores rs = Inr xs" "rs \<noteq> []"
  shows "summarize rs =
           Inr (\<lparr>average_score = sum_list xs / real (length xs),
                 total_questions = length xs,
                 pass_rate = real (length (filter (\<lambda>x. x \<ge> 0.7) xs)) / real (length xs),
                 results = rs\<rparr>,
                grade (sum_list xs / real (length xs)))"
proof -
  have len: "length rs = length xs" using scores_length [OF assms(1)] by simp
  have ne: "(length xs = 0) = False" using assms(2) len by (cases rs) auto
  show ?thesis
    unfolding summarize_def Let_def assms(1) len
    by (simp only: sum.case ne if_False)
qed

subsection \<open>The run\<close>

lemma upload_artifact: "artifact (snd (upload_test_documents env w)) = artifact w"
  by (simp add: upload_test_documents_def Let_def split_beta)

lemma upload_trace:
  "\<exists>evs. trace (snd (upload_test_documents env w)) = trace w @ evs \<and> WriteSummary \<notin> set evs"
  by (simp add: upload_test_documents_def Let_def split_beta)

lemma evaluate_all_append:
  "evaluate_all env (qs @ qs') docs [] w =
     (fst (evaluate_all env qs docs [] w) @ fst (evaluate_all env qs' docs [] (snd (evaluate_all env qs docs [] w))),
      snd (evaluate_all env qs' docs [] (snd (evaluate_all env qs docs [] w))))"
  by (induction qs arbitrary: w) (simp_all add: evaluate_all_Cons)

lemma evaluate_all_scores:
  "\<exists>xs. scores (fst (evaluate_all env qs docs [] w)) = Inr xs \<and> length xs = length qs"
  using scores_all [of "fst (evaluate_all env qs docs [] w)"] evaluate_all_has_score
  by (metis evaluate_all_length)

lemma run_evaluation_unhealthy:
  assumes "healthz env = Inl e \<or> (\<exists>c. healthz env = Inr c \<and> c \<noteq> 200)"
  shows "fst (run_evaluation env w0) = (if \<exists>x. healthz env = Inl x \<and> x \<noteq> ConnectionError then Uncaught e else SysExit 1)"
    and "snd (run_evaluation env w0) = w0\<lparr>trace := trace w0 @ [Probe]\<rparr>"
  using assms by (auto simp: run_evaluation_def Let_def split: sum.splits py_error.splits)

lemma run_evaluation_no_documents:
  assumes "healthz env = Inr 200"
    and "fst (upload_test_documents env (w0\<lparr>trace := trace w0 @ [Probe]\<rparr>)) = []"
  shows "run_evaluation env w0 = (SysExit 1, snd (upload_test_documents env (w0\<lparr>trace := trace w0 @ [Probe]\<rparr>)))"
  using assms by (simp add: run_evaluation_def Let_def split_beta)

lemma run_evaluation_completes:
  assumes "healthz env = Inr 200"
    and "fst (upload_test_documents env (w0\<lparr>trace := trace w0 @ [Probe]\<rparr>)) = docs"
    and "docs \<noteq> []"
    and "snd (upload_test_documents env (w0\<lparr>trace := trace w0 @ [Probe]\<rparr>)) = w2"
    and "evaluate_all env (load_eval_set env) docs [] w2 = (rs, w3)"
    and "scores rs = Inr xs"
  shows "load_eval_set env \<noteq> [] \<Longrightarrow>
           run_evaluation env w0 =
             (Returned,
              w3\<lparr>trace := trace w3 @ [PrintGrade (grade (sum_list xs / real (length xs))), WriteSummary],
                 artifact := Some \<lparr>average_score = sum_list xs / real (length xs),
                   total_questions = length xs,
                   pass_rate = real (length (filter (\<lambda>x. x \<ge> 0.7) xs)) / real (length xs),
                   results = rs\<rparr>\<rparr>)"
    and "load_eval_set env = [] \<Longrightarrow> run_evaluation env w0 = (Uncaught ZeroDivisionError, w3)"
proof -
  have len: "length rs = length (load_eval_set env)"
    using evaluate_all_length [of env "load_eval_set env" docs w2] assms(5) by simp
  {
    assume ne: "load_eval_set env \<noteq> []"
    then have "rs \<noteq> []" using len by auto
    from summarize_Inr [OF assms(6) this]
    show "run_evaluation env w0 =
             (Returned,
              w3\<lparr>trace := trace w3 @ [PrintGrade (grade (sum_list xs / real (length xs))), WriteSummary],
                 artifact := Some \<lparr>average_score = sum_list xs / real (length xs),
                   total_questions = length xs,
                   pass_rate = real (length (filter (\<lambda>x. x \<ge> 0.7) xs)) / real (length xs),
                   results = rs\<rparr>\<rparr>)"
      using assms(1-5) by (simp add: run_evaluation_def Let_def split_beta)
  }
  {
    assume "load_eval_set env = []"
    then have "rs = []" using len by auto
    then show "run_evaluation env w0 = (Uncaught ZeroDivisionError, w3)"
      using assms(1-5) by (simp add: run_evaluation_def Let_def split_beta summarize_def)
  }
qed

lemma run_evaluation_Returned:
  assumes "run_evaluation env w0 = (Returned, w)"
    and "docs = fst (upload_test_documents env (w0\<lparr>trace := trace w0 @ [Probe]\<rparr>))"
    and "w2 = snd (upload_test_documents env (w0\<lparr>trace := trace w0 @ [Probe]\<rparr>))"
    and "w3 = snd (evaluate_all env (load_eval_set env) docs [] w2)"
  shows "\<exists>sm g.
           healthz env = Inr 200 \<and> docs \<noteq> []
           \<and> summarize (fst (evaluate_all env (load_eval_set env) docs [] w2)) = Inr (sm, g)
           \<and> w = w3\<lparr>trace := trace w3 @ [PrintGrade g, WriteSummary], artifact := Some sm\<rparr>"
  using assms
  by (auto simp: run_evaluation_def Let_def split_beta
      split: sum.splits py_error.splits if_splits prod.splits)

lemma summarize_results: "summarize rs = Inr (sm, g) \<Longrightarrow> results sm = rs \<and> g = grade (average_score sm)"
  by (auto simp: summarize_def Let_def split: sum.splits if_splits)

text \<open>
  A run that returns has written the summary of its own results and printed the grade of
  that summary.
\<close>

lemma run_evaluation_reports_summary:
  assumes "run_evaluation env w0 = (Returned, w)"
  shows "\<exists>sm g. artifact w = Some sm \<and> summarize (results sm) = Inr (sm, g)
           \<and> g = grade (average_score sm) \<and> PrintGrade g \<in> set (trace w)"
proof -
  from run_evaluation_Returned [OF assms refl refl refl] obtain sm g where
    s: "summarize (fst (evaluate_all env (load_eval_set env)
          (fst (upload_test_documents env (w0\<lparr>trace := trace w0 @ [Probe]\<rparr>))) []
          (snd (upload_test_documents env (w0\<lparr>trace := trace w0 @ [Probe]\<rparr>))))) = Inr (sm, g)"
    and w: "artifact w = Some sm" "PrintGrade g \<in> set (trace w)"
    by auto
  from summarize_results [OF s] s w show ?thesis
    by auto
qed

lemma result_keys:
  "map fst (result_of_response q r) =
     (if status_code r \<noteq> 200 then [''question_id'', ''score'', ''reason'']
      else [''question_id'', ''question'', ''answer'', ''score'', ''matched_keywords'', ''has_citations''])"
  by (simp add: result_of_response_def error_result_def scored_result_def Let_def)

lemma matched_keywords_entry:
  "map_of (scored_result q d) ''matched_keywords'' =
     Some (JList (map JStr (filter (\<lambda>k. contains (lower (get_answer d)) (lower k)) (expected_keywords q))))"
  by (simp add: scored_result_def Let_def match_keywords_filter)

lemma distinct_length_filter_card: "distinct xs \<Longrightarrow> length (filter P xs) = card {x \<in> set xs. P x}"
  by (metis distinct_card distinct_filter set_filter)

lemma reason_entry:
  "status_code r \<noteq> 200 \<Longrightarrow>
     map_of (result_of_response q r) ''reason'' = Some (JStr (''API error: '' @ str_nat (status_code r)))"
  by (simp add: result_of_response_def error_result_def)

lemma score_of_error_response:
  "status_code r \<noteq> 200 \<Longrightarrow> score_of (result_of_response q r) = Inr 0"
  by (simp add: result_of_response_def score_of_error_result)

lemma run_evaluation_aborts:
  assumes "w1 = w0\<lparr>trace := trace w0 @ [Probe]\<rparr>"
    and "(\<exists>e. healthz env = Inl e) \<or> (\<exists>c. healthz env = Inr c \<and> c \<noteq> 200)
         \<or> (healthz env = Inr 200 \<and> fst (upload_test_documents env w1) = [])"
  shows "exit_code (fst (run_evaluation env w0)) = 1"
    and "artifact (snd (run_evaluation env w0)) = artifact w0"
    and "\<exists>evs. trace (snd (run_evaluation env w0)) = trace w0 @ evs \<and> WriteSummary \<notin> set evs"
proof -
  from assms(2) consider
    (exc) e where "healthz env = Inl e"
    | (status) c where "healthz env = Inr c" "c \<noteq> 200"
    | (nodocs) "healthz env = Inr 200" "fst (upload_test_documents env w1) = []"
    by blast
  then have "exit_code (fst (run_evaluation env w0)) = 1
      \<and> artifact (snd (run_evaluation env w0)) = artifact w0
      \<and> (\<exists>evs. trace (snd (run_evaluation env w0)) = trace w0 @ evs \<and> WriteSummary \<notin> set evs)"
  proof cases
    case exc
    then have "snd (run_evaluation env w0) = w0\<lparr>trace := trace w0 @ [Probe]\<rparr>"
      and "exit_code (fst (run_evaluation env w0)) = 1"
      by (auto simp: run_evaluation_def Let_def split: py_error.splits)
    then show ?thesis by simp
  next
    case status
    then have "run_evaluation env w0 = (SysExit 1, w0\<lparr>trace := trace w0 @ [Probe]\<rparr>)"
      by (simp add: run_evaluation_def Let_def)
    then show ?thesis by simp
  next
    case nodocs
    from run_evaluation_no_documents [OF nodocs(1)] nodocs(2) assms(1)
    have run: "run_evaluation env w0 = (SysExit 1, snd (upload_test_documents env w1))"
      by simp
    from upload_trace [of env w1] obtain evs where
      "trace (snd (upload_test_documents env w1)) = trace w1 @ evs" "WriteSummary \<notin> set evs"
      by blast
    then have "trace (snd (upload_test_documents env w1)) = trace w0 @ (Probe # evs)"
      "WriteSummary \<notin> set (Probe # evs)"
      using assms(1) by simp_all
    then have "\<exists>evs. trace (snd (upload_test_documents env w1)) = trace w0 @ evs \<and> WriteSummary \<notin> set evs"
      by blast
    then show ?thesis
      using run upload_artifact [of env w1] assms(1) by simp
  qed
  then show "exit_code (fst (run_evaluation env w0)) = 1"
    and "artifact (snd (run_evaluation env w0)) = artifact w0"
    and "\<exists>evs. trace (snd (run_evaluation env w0)) = trace w0 @ evs \<and> WriteSummary \<notin> set evs"
    by blast+
qed

lemma run_evaluation_sys_exit:
  assumes "w1 = w0\<lparr>trace := trace w0 @ [Probe]\<rparr>"
    and "healthz env = Inl ConnectionError \<or> (\<exists>c. healthz env = Inr c \<and> c \<noteq> 200)
         \<or> (healthz env = Inr 200 \<and> fst (upload_test_documents env w1) = [])"
  shows "fst (run_evaluation env w0) = SysExit 1"
  using assms run_evaluation_no_documents [of env w0]
  by (auto simp: run_evaluation_def Let_def)

lemma run_evaluation_writes_last:
  assumes "w1 = w0\<lparr>trace := trace w0 @ [Probe]\<rparr>"
    and "docs = fst (upload_test_documents env w1)"
    and "w2 = snd (upload_test_documents env w1)"
    and "healthz env = Inr 200" and "docs \<noteq> []" and "load_eval_set env \<noteq> []"
  shows "\<exists>sm g. run_evaluation env w0 =
             (Returned,
              (snd (evaluate_all env (load_eval_set env) docs [] w2))
                \<lparr>trace := trace w2 @ map (\<lambda>q. Ask (question q)) (load_eval_set env)
                            @ [PrintGrade g, WriteSummary],
                  artifact := Some sm\<rparr>)
           \<and> results sm = fst (evaluate_all env (load_eval_set env) docs [] w2)
           \<and> length (results sm) = length (load_eval_set env)
           \<and> total_questions sm = length (load_eval_set env)"
proof -
  obtain xs where xs: "scores (fst (evaluate_all env (load_eval_set env) docs [] w2)) = Inr xs"
    "length xs = length (load_eval_set env)"
    using evaluate_all_scores by blast
  have "evaluate_all env (load_eval_set env) docs [] w2 =
          (fst (evaluate_all env (load_eval_set env) docs [] w2),
           snd (evaluate_all env (load_eval_set env) docs [] w2))"
    by simp
  note run = run_evaluation_completes(1) [OF assms(4) _ assms(5) _ this xs(1) assms(6), of w0]
  let ?rs = "fst (evaluate_all env (load_eval_set env) docs [] w2)"
  let ?sm = "\<lparr>average_score = sum_list xs / real (length xs),
               total_questions = length xs,
               pass_rate = real (length (filter (\<lambda>x. x \<ge> 0.7) xs)) / real (length xs),
               results = ?rs\<rparr>"
  let ?g = "grade (sum_list xs / real (length xs))"
  have "run_evaluation env w0 =
             (Returned,
              (snd (evaluate_all env (load_eval_set env) docs [] w2))
                \<lparr>trace := trace w2 @ map (\<lambda>q. Ask (question q)) (load_eval_set env)
                            @ [PrintGrade ?g, WriteSummary],
                  artifact := Some ?sm\<rparr>)
           \<and> results ?sm = ?rs
           \<and> length (results ?sm) = length (load_eval_set env)
           \<and> total_questions ?sm = length (load_eval_set env)"
    using run assms(1-3) xs(2) by (simp add: evaluate_all_trace evaluate_all_length)
  then show ?thesis by blast
qed

lemma summarize_InrD:
  assumes "summarize rs = Inr (sm, g)"
  shows "\<exists>xs. scores rs = Inr xs \<and> rs \<noteq> [] \<and> length xs = length rs
           \<and> total_questions sm = length rs
           \<and> average_score sm = sum_list xs / real (length rs)
           \<and> pass_rate sm = real (length (filter (\<lambda>x. x \<ge> 0.7) xs)) / real (length rs)
           \<and> results sm = rs"
proof -
  from assms obtain xs where xs: "scores rs = Inr xs"
    by (cases "scores rs") (simp_all add: summarize_def)
  from assms xs have ne: "rs \<noteq> []"
    by (auto simp: summarize_def)
  from summarize_Inr [OF xs ne] assms scores_length [OF xs] xs ne show ?thesis
    by auto
qed

subsection \<open>The extraction model\<close>

lemma dedup_by_keys:
  "f ` set (dedup_by f seen xs) \<inter> set seen = {}"
proof (induction xs arbitrary: seen)
  case Nil
  then show ?case by simp
next
  case (Cons x xs)
  from Cons.IH [of seen] Cons.IH [of "f x # seen"] show ?case
    by auto
qed

lemma dedup_by_distinct: "distinct (map f (dedup_by f seen xs))"
proof (induction xs arbitrary: seen)
  case Nil
  then show ?case by simp
next
  case (Cons x xs)
  from dedup_by_keys [of f "f x # seen" xs] have "f x \<notin> f ` set (dedup_by f (f x # seen) xs)"
    by auto
  with Cons.IH show ?case by simp
qed

lemma length_truncate_text: "length (truncate_text limit text) = min limit (length text)"
  by (auto simp: truncate_text_def)


lemma optional_field_error: "optional_field PatternError = None"
  by (simp add: optional_field_def)

lemma list_field_error: "list_field PatternError = []"
  by (simp add: list_field_def)

lemma extract_fields_empty: "extract_fields pats limit [] = Inr empty_fields"
  by (simp add: extract_fields_def)

lemma extract_fields_nonempty:
  "text \<noteq> [] \<Longrightarrow>
     extract_fields pats limit text =
       Inr \<lparr>parties = dedup_by (normalize pats) [] (list_field (scan_parties pats (truncate_text limit text))),
            effective_date = optional_field (scan_effective_date pats (truncate_text limit text)),
            governing_law = optional_field (scan_governing_law pats (truncate_text limit text)),
            liability_cap = optional_field (scan_liability_cap pats (truncate_text limit text)),
            signatures = list_field (scan_signatures pats (truncate_text limit text))\<rparr>"
  by (simp add: extract_fields_def Let_def)

section \<open>The claims of the specification\<close>

subsection \<open>C1: the base score\<close>

text \<open>
  Claim C1, as the specification states it, takes \<open>matched\<close> as a set. The loop appends
  a keyword once per entry of \<open>expected_keywords\<close>, so an entry that is listed twice and
  matches counts twice: with the keywords California, California, two years and an answer
  that names California the code scores 2/3, while the set of matched keywords has one
  element (1/3 of the entries, 1/2 of the distinct keywords).
\<close>

theorem base_score_set_counterexample:
  "score_of (result_of_response
       \<lparr>id_q = JInt 1, question = ''Which law governs the agreement?'',
        expected_keywords = [''California'', ''California'', ''two years'']\<rparr>
       \<lparr>status_code = 200, json = \<lparr>answer = Some ''The State of California'', citations = None\<rparr>\<rparr>)
     = Inr (2 / 3)
   \<and> base_score [''California'', ''California'', ''two years'']
        (match_keywords [''California'', ''California'', ''two years''] (lower ''The State of California'') [])
     = 2 / 3
   \<and> real (card (set (match_keywords [''California'', ''California'', ''two years'']
                        (lower ''The State of California'') [])))
       / real (length [''California'', ''California'', ''two years'']) = 1 / 3
   \<and> real (card (set (match_keywords [''California'', ''California'', ''two years'']
                        (lower ''The State of California'') [])))
       / real (card (set [''California'', ''California'', ''two years''])) = 1 / 2
   \<and> base_score [''California'', ''California'', ''two years'']
        (match_keywords [''California'', ''California'', ''two years''] (lower ''The State of California'') [])
     \<noteq> real (card (set (match_keywords [''California'', ''California'', ''two years'']
                        (lower ''The State of California'') [])))
       / real (length [''California'', ''California'', ''two years''])"
  by (simp add: result_of_response_def score_of_scored_result get_answer_def get_citations_def
      lower_def lower_char_def base_score_def has_negative_def negative_phrases_def final_score_def)


text \<open>
  Claim C1, amended: for a successful answer the matched keywords are the entries of
  \<open>expected_keywords\<close>, in order and with repetitions, whose lower-cased form is a
  substring of the lower-cased answer; the base score is their number divided by the
  number of entries, and 0.0 when there is no entry; the final score is computed from
  this base score. When no keyword is listed twice the number of matched entries is the
  size of the set of matched keywords.
\<close>

theorem base_score_counts_matching_entries:
  assumes "status_code r = 200"
    and "ans = lower (get_answer (json r))"
    and "kws = expected_keywords q"
    and "m = filter (\<lambda>k. \<exists>pre suf. ans = pre @ lower k @ suf) kws"
  shows "map_of (result_of_response q r) ''matched_keywords'' = Some (JList (map JStr m))
     \<and> score_of (result_of_response q r) =
         Inr (final_score (base_score kws m) (has_negative ans) (length (get_citations (json r)) > 0))
     \<and> base_score kws m = (if kws = [] then 0.0 else real (length m) / real (length kws))
     \<and> (distinct kws \<longrightarrow> length m = card {k \<in> set kws. \<exists>pre suf. ans = pre @ lower k @ suf})"
proof -
  have m: "m = filter (\<lambda>k. contains ans (lower k)) kws"
    using assms(4) by (simp add: contains_iff)
  have "map_of (result_of_response q r) ''matched_keywords'' = Some (JList (map JStr m))"
    using assms(1-3) m by (simp add: result_of_response_def matched_keywords_entry)
  moreover have "score_of (result_of_response q r) =
         Inr (final_score (base_score kws m) (has_negative ans) (length (get_citations (json r)) > 0))"
    using assms(1-3) m
    by (simp add: result_of_response_def score_of_scored_result match_keywords_filter)
  moreover have "base_score kws m = (if kws = [] then 0.0 else real (length m) / real (length kws))"
    by (simp add: base_score_def)
  moreover have "distinct kws \<longrightarrow> length m = card {k \<in> set kws. \<exists>pre suf. ans = pre @ lower k @ suf}"
    using assms(4) by (simp add: distinct_length_filter_card)
  ultimately show ?thesis by blast
qed

text \<open>
  The first question of the example run: one of two keywords is matched.
\<close>

theorem base_score_counts_matching_entries_witness:
  "status_code (fst (example_ask 0 (question (example_questions ! 0)))) = 200
   \<and> map_of (result_of_response (example_questions ! 0)
               (fst (example_ask 0 (question (example_questions ! 0))))) ''matched_keywords''
       = Some (JList [JStr ''California''])
   \<and> score_of (result_of_response (example_questions ! 0)
               (fst (example_ask 0 (question (example_questions ! 0)))))
       = Inr (final_score (1 / 2) True True)"
proof -
  let ?r = "fst (example_ask 0 (question (example_questions ! 0)))"
  let ?q = "example_questions ! 0"
  have ok: "status_code ?r = 200"
    by code_simp
  have m: "filter (\<lambda>k. \<exists>pre suf. lower (get_answer (json ?r)) = pre @ lower k @ suf)
             [''California'', ''two years''] = [''California'']"
    unfolding contains_iff [symmetric] by code_simp
  have kws: "expected_keywords ?q = [''California'', ''two years'']"
    by code_simp
  have neg: "has_negative (lower (get_answer (json ?r)))"
    by code_simp
  have cit: "0 < length (get_citations (json ?r))"
    by code_simp
  have b: "base_score [''California'', ''two years''] [''California''] = 1 / 2"
    by (simp add: base_score_def)
  from base_score_counts_matching_entries [OF ok refl refl refl, of ?q]
  show ?thesis
    unfolding kws m b using ok neg cit by simp
qed

subsection \<open>C2: penalty before bonus\<close>

text \<open>
  Claim C2: for a successful answer the score is the base score, halved when the
  lower-cased answer contains one of the four fixed phrases, then raised by 0.1 when the
  response has one or more citations, then capped at 1. An answer that contains a phrase
  as written is penalised, and a half-matched, negative, cited answer scores 0.35.
\<close>

theorem penalty_then_bonus:
  assumes "status_code r = 200"
    and "ans = get_answer (json r)"
    and "base = base_score (expected_keywords q) (match_keywords (expected_keywords q) (lower ans) [])"
    and "bonus = (if length (get_citations (json r)) \<ge> 1 then 0.1 else 0.0)"
  shows "score_of (result_of_response q r) =
           Inr (min ((if has_negative (lower ans) then base * 0.5 else base) + bonus) 1.0)
     \<and> (has_negative (lower ans) \<longleftrightarrow>
          (\<exists>p \<in> set [''not found'', ''cannot find'', ''no information'', ''not in the document''].
             \<exists>pre suf. lower ans = pre @ p @ suf))
     \<and> ((\<exists>p \<in> set [''not found'', ''cannot find'', ''no information'', ''not in the document''].
            \<exists>pre suf. ans = pre @ p @ suf)
          \<longrightarrow> score_of (result_of_response q r) = Inr (min (base * 0.5 + bonus) 1.0))
     \<and> (base = 0.5 \<and> has_negative (lower ans) \<and> length (get_citations (json r)) \<ge> 1
          \<longrightarrow> score_of (result_of_response q r) = Inr 0.35)"
proof -
  have cited: "(0 < length (get_citations (json r))) = (1 \<le> length (get_citations (json r)))"
    by (simp add: Suc_le_eq)
  have "score_of (result_of_response q r) = score_of (scored_result q (json r))"
    using assms(1) by (simp add: result_of_response_def)
  also have "\<dots> = Inr (final_score base (has_negative (lower ans)) (1 \<le> length (get_citations (json r))))"
    unfolding score_of_scored_result cited assms(2,3) ..
  also have "final_score base (has_negative (lower ans)) (1 \<le> length (get_citations (json r)))
      = min ((if has_negative (lower ans) then base * 0.5 else base) + bonus) 1.0"
    unfolding final_score_def Let_def assms(4) by simp
  finally have score: "score_of (result_of_response q r) =
           Inr (min ((if has_negative (lower ans) then base * 0.5 else base) + bonus) 1.0)" .
  have neg: "has_negative (lower ans) \<longleftrightarrow>
          (\<exists>p \<in> set [''not found'', ''cannot find'', ''no information'', ''not in the document''].
             \<exists>pre suf. lower ans = pre @ p @ suf)"
    unfolding has_negative_iff contains_iff negative_phrases_def ..
  have raw: "has_negative (lower ans)"
    if "\<exists>p \<in> set [''not found'', ''cannot find'', ''no information'', ''not in the document''].
            \<exists>pre suf. ans = pre @ p @ suf"
  proof -
    from that obtain p where p: "p \<in> set negative_phrases" "contains ans p"
      unfolding contains_iff negative_phrases_def by blast
    from contains_lower [OF p(2)] lower_negative_phrases [OF p(1)]
    have "contains (lower ans) p" by simp
    with p(1) show ?thesis unfolding has_negative_iff by blast
  qed
  show ?thesis
  proof (intro conjI impI)
    show "score_of (result_of_response q r) =
           Inr (min ((if has_negative (lower ans) then base * 0.5 else base) + bonus) 1.0)"
      by (rule score)
    show "has_negative (lower ans) \<longleftrightarrow>
          (\<exists>p \<in> set [''not found'', ''cannot find'', ''no information'', ''not in the document''].
             \<exists>pre suf. lower ans = pre @ p @ suf)"
      by (rule neg)
  next
    assume "\<exists>p \<in> set [''not found'', ''cannot find'', ''no information'', ''not in the document''].
            \<exists>pre suf. ans = pre @ p @ suf"
    from raw [OF this] show "score_of (result_of_response q r) = Inr (min (base * 0.5 + bonus) 1.0)"
      unfolding score by simp
  next
    assume a: "base = 0.5 \<and> has_negative (lower ans) \<and> length (get_citations (json r)) \<ge> 1"
    then have "bonus = 0.1" using assms(4) by simp
    with a show "score_of (result_of_response q r) = Inr 0.35"
      unfolding score by simp
  qed
qed

text \<open>
  The first question of the example run: half of the keywords, the phrase "not found"
  and a citation give 0.5 * 0.5 + 0.1 = 0.35.
\<close>

theorem penalty_then_bonus_witness:
  "status_code (fst (example_ask 0 (question (example_questions ! 0)))) = 200
   \<and> (\<exists>pre suf. get_answer (json (fst (example_ask 0 (question (example_questions ! 0)))))
          = pre @ ''not found'' @ suf)
   \<and> length (get_citations (json (fst (example_ask 0 (question (example_questions ! 0)))))) \<ge> 1
   \<and> score_of (result_of_response (example_questions ! 0)
                 (fst (example_ask 0 (question (example_questions ! 0))))) = Inr 0.35"
proof -
  let ?r = "fst (example_ask 0 (question (example_questions ! 0)))"
  let ?q = "example_questions ! 0"
  have ok: "status_code ?r = 200"
    by code_simp
  have base: "base_score (expected_keywords ?q)
                (match_keywords (expected_keywords ?q) (lower (get_answer (json ?r))) []) = 0.5"
    by code_simp
  have neg: "has_negative (lower (get_answer (json ?r)))"
    by code_simp
  have raw: "\<exists>pre suf. get_answer (json ?r) = pre @ ''not found'' @ suf"
    unfolding contains_iff [symmetric] by code_simp
  have cit: "length (get_citations (json ?r)) \<ge> 1"
    by code_simp
  from penalty_then_bonus [OF ok refl refl refl, of ?q] base neg cit
  have "score_of (result_of_response ?q ?r) = Inr 0.35"
    by blast
  with ok raw cit show ?thesis by blast
qed

subsection \<open>C3: extraction never fails\<close>

text \<open>
  Claim C3, on the model of the extraction engine: for every text, empty or longer than
  the threshold, and whatever the scanners do, \<^verbatim>\<open>extract_fields\<close> returns a value and no
  exception; the value is well formed, it is the empty value for the empty text, and a
  field whose scanner fails is absent or empty.
\<close>

theorem extract_fields_never_raises:
  "\<exists>f. extract_fields pats limit text = Inr f
      \<and> well_formed pats f
      \<and> (text = [] \<longrightarrow> f = empty_fields)
      \<and> (scan_parties pats (truncate_text limit text) = PatternError \<longrightarrow> parties f = [])
      \<and> (scan_effective_date pats (truncate_text limit text) = PatternError \<longrightarrow> effective_date f = None)
      \<and> (scan_governing_law pats (truncate_text limit text) = PatternError \<longrightarrow> governing_law f = None)
      \<and> (scan_liability_cap pats (truncate_text limit text) = PatternError \<longrightarrow> liability_cap f = None)
      \<and> (scan_signatures pats (truncate_text limit text) = PatternError \<longrightarrow> signatures f = [])"
proof (cases "text = []")
  case True
  have "extract_fields pats limit text = Inr empty_fields"
    unfolding True by (rule extract_fields_empty)
  moreover have "well_formed pats empty_fields"
    by (simp add: well_formed_def empty_fields_def)
  moreover have "parties empty_fields = []" "effective_date empty_fields = None"
    "governing_law empty_fields = None" "liability_cap empty_fields = None"
    "signatures empty_fields = []"
    by (simp_all add: empty_fields_def)
  ultimately show ?thesis by blast
next
  case False
  let ?t = "truncate_text limit text"
  let ?f = "\<lparr>parties = dedup_by (normalize pats) [] (list_field (scan_parties pats ?t)),
            effective_date = optional_field (scan_effective_date pats ?t),
            governing_law = optional_field (scan_governing_law pats ?t),
            liability_cap = optional_field (scan_liability_cap pats ?t),
            signatures = list_field (scan_signatures pats ?t)\<rparr>"
  have "extract_fields pats limit text = Inr ?f"
    by (rule extract_fields_nonempty [OF False])
  moreover have "well_formed pats ?f"
    by (simp add: well_formed_def dedup_by_distinct)
  moreover have "scan_parties pats ?t = PatternError \<longrightarrow> parties ?f = []"
    by (simp add: list_field_error)
  moreover have "scan_effective_date pats ?t = PatternError \<longrightarrow> effective_date ?f = None"
    by (simp add: optional_field_error)
  moreover have "scan_governing_law pats ?t = PatternError \<longrightarrow> governing_law ?f = None"
    by (simp add: optional_field_error)
  moreover have "scan_liability_cap pats ?t = PatternError \<longrightarrow> liability_cap ?f = None"
    by (simp add: optional_field_error)
  moreover have "scan_signatures pats ?t = PatternError \<longrightarrow> signatures ?f = []"
    by (simp add: list_field_error)
  ultimately show ?thesis using False by blast
qed

text \<open>
  A document longer than the threshold of 60 characters, with a failing scanner for the
  governing law; and the empty document.
\<close>

theorem extract_fields_never_raises_witness:
  "length ''Liability cap $100,000. This sentence is cut by the truncation. John Smith, CEO, Acme'' > 60
   \<and> scan_governing_law example_patterns
        (truncate_text 60
           ''Liability cap $100,000. This sentence is cut by the truncation. John Smith, CEO, Acme'')
       = PatternError
   \<and> extract_fields example_patterns 60
        ''Liability cap $100,000. This sentence is cut by the truncation. John Smith, CEO, Acme''
       = Inr \<lparr>parties = [''Acme Corporation'', ''Tech Solutions Inc''],
              effective_date = Some (2024, 1, 15),
              governing_law = None,
              liability_cap = Some (100000, ''USD''),
              signatures = []\<rparr>
   \<and> extract_fields example_patterns 60 [] = Inr empty_fields"
proof -
  let ?text = "''Liability cap $100,000. This sentence is cut by the truncation. John Smith, CEO, Acme''"
  have long: "length ?text > 60"
    by simp
  have t: "truncate_text 60 ?text = ''Liability cap $100,000. This sncation. John Smith, CEO, Acme''"
    by (simp add: truncate_text_def)
  have cap: "contains ''Liability cap $100,000. This sncation. John Smith, CEO, Acme'' ''$100,000''"
    by code_simp
  have names: "dedup_by lower [] [''Acme Corporation'', ''ACME CORPORATION'', ''Tech Solutions Inc'']
      = [''Acme Corporation'', ''Tech Solutions Inc'']"
    by code_simp
  have law: "scan_governing_law example_patterns (truncate_text 60 ?text) = PatternError"
    by (simp add: example_patterns_def)
  obtain f where f: "extract_fields example_patterns 60 ?text = Inr f"
    "scan_governing_law example_patterns (truncate_text 60 ?text) = PatternError \<longrightarrow> governing_law f = None"
    using extract_fields_never_raises [of example_patterns 60 ?text] by blast
  have v: "extract_fields example_patterns 60 ?text
       = Inr \<lparr>parties = [''Acme Corporation'', ''Tech Solutions Inc''],
              effective_date = Some (2024, 1, 15),
              governing_law = None,
              liability_cap = Some (100000, ''USD''),
              signatures = []\<rparr>"
    unfolding extract_fields_nonempty [of ?text, simplified] t
    by (simp add: example_patterns_def cap names list_field_def optional_field_def
        del: dedup_by.simps)
  have "\<exists>f. extract_fields example_patterns 60 [] = Inr f \<and> ([] = ([] :: string) \<longrightarrow> f = empty_fields)"
    using extract_fields_never_raises [of example_patterns 60 "[]"] by blast
  then have e: "extract_fields example_patterns 60 [] = Inr empty_fields"
    by auto
  from long law v e show ?thesis by blast
qed

subsection \<open>C4: what ends a run and what does not\<close>

text \<open>
  Claim C4: when the health probe cannot connect or answers with a status other than
  200, or when no document is uploaded, the run ends in \<^verbatim>\<open>sys.exit(1)\<close>, the results
  file is left as it was and no summary is written. A response to a question with a
  status other than 200 gives a result with score 0.0 and a reason. With a healthy
  service, an uploaded document and a non-empty question set the run returns whatever
  the answers to the questions are: the summary holds one result per question, and it is
  written after the request of the last question.
\<close>

theorem setup_failures_abort_question_failures_do_not:
  assumes "w1 = w0\<lparr>trace := trace w0 @ [Probe]\<rparr>"
    and "docs = fst (upload_test_documents env w1)"
    and "w2 = snd (upload_test_documents env w1)"
  shows
    "(healthz env = Inl ConnectionError \<or> (\<exists>c. healthz env = Inr c \<and> c \<noteq> 200)
        \<or> (healthz env = Inr 200 \<and> docs = [])
      \<longrightarrow> fst (run_evaluation env w0) = SysExit 1
          \<and> exit_code (fst (run_evaluation env w0)) \<noteq> 0
          \<and> artifact (snd (run_evaluation env w0)) = artifact w0
          \<and> (\<exists>evs. trace (snd (run_evaluation env w0)) = trace w0 @ evs \<and> WriteSummary \<notin> set evs))
     \<and> (\<forall>q r. status_code r \<noteq> 200 \<longrightarrow>
           score_of (result_of_response q r) = Inr 0.0
           \<and> map_of (result_of_response q r) ''reason''
               = Some (JStr (''API error: '' @ str_nat (status_code r))))
     \<and> (healthz env = Inr 200 \<and> docs \<noteq> [] \<and> load_eval_set env \<noteq> [] \<longrightarrow>
           (\<exists>sm g. fst (run_evaluation env w0) = Returned
              \<and> artifact (snd (run_evaluation env w0)) = Some sm
              \<and> results sm = fst (evaluate_all env (load_eval_set env) docs [] w2)
              \<and> length (results sm) = length (load_eval_set env)
              \<and> trace (snd (run_evaluation env w0)) =
                  trace w2 @ map (\<lambda>q. Ask (question q)) (load_eval_set env)
                  @ [PrintGrade g, WriteSummary]))"
proof (intro conjI impI allI)
  assume a: "healthz env = Inl ConnectionError \<or> (\<exists>c. healthz env = Inr c \<and> c \<noteq> 200)
        \<or> (healthz env = Inr 200 \<and> docs = [])"
  then have b: "(\<exists>e. healthz env = Inl e) \<or> (\<exists>c. healthz env = Inr c \<and> c \<noteq> 200)
         \<or> (healthz env = Inr 200 \<and> fst (upload_test_documents env w1) = [])"
    unfolding assms(2) by blast
  from a show "fst (run_evaluation env w0) = SysExit 1"
    unfolding assms(2) by (rule run_evaluation_sys_exit [OF assms(1)])
  from run_evaluation_aborts(1) [OF assms(1) b]
  show "exit_code (fst (run_evaluation env w0)) \<noteq> 0" by simp
  from run_evaluation_aborts(2) [OF assms(1) b]
  show "artifact (snd (run_evaluation env w0)) = artifact w0" .
  from run_evaluation_aborts(3) [OF assms(1) b]
  show "\<exists>evs. trace (snd (run_evaluation env w0)) = trace w0 @ evs \<and> WriteSummary \<notin> set evs" .
next
  fix q :: eval_question and r :: ask_response
  assume "status_code r \<noteq> 200"
  then show "score_of (result_of_response q r) = Inr 0.0"
    and "map_of (result_of_response q r) ''reason''
               = Some (JStr (''API error: '' @ str_nat (status_code r)))"
    by (simp_all add: score_of_error_response reason_entry)
next
  assume "healthz env = Inr 200 \<and> docs \<noteq> [] \<and> load_eval_set env \<noteq> []"
  then have h: "healthz env = Inr 200" "docs \<noteq> []" "load_eval_set env \<noteq> []"
    by simp_all
  from run_evaluation_writes_last [OF assms h] obtain sm g where
    run: "run_evaluation env w0 =
             (Returned,
              (snd (evaluate_all env (load_eval_set env) docs [] w2))
                \<lparr>trace := trace w2 @ map (\<lambda>q. Ask (question q)) (load_eval_set env)
                            @ [PrintGrade g, WriteSummary],
                  artifact := Some sm\<rparr>)"
    and sm: "results sm = fst (evaluate_all env (load_eval_set env) docs [] w2)"
      "length (results sm) = length (load_eval_set env)"
    by blast
  have "fst (run_evaluation env w0) = Returned
              \<and> artifact (snd (run_evaluation env w0)) = Some sm
              \<and> results sm = fst (evaluate_all env (load_eval_set env) docs [] w2)
              \<and> length (results sm) = length (load_eval_set env)
              \<and> trace (snd (run_evaluation env w0)) =
                  trace w2 @ map (\<lambda>q. Ask (question q)) (load_eval_set env)
                  @ [PrintGrade g, WriteSummary]"
    unfolding run using sm by simp
  then show "\<exists>sm g. fst (run_evaluation env w0) = Returned
              \<and> artifact (snd (run_evaluation env w0)) = Some sm
              \<and> results sm = fst (evaluate_all env (load_eval_set env) docs [] w2)
              \<and> length (results sm) = length (load_eval_set env)
              \<and> trace (snd (run_evaluation env w0)) =
                  trace w2 @ map (\<lambda>q. Ask (question q)) (load_eval_set env)
                  @ [PrintGrade g, WriteSummary]"
    by blast
qed

text \<open>
  The example service when it is down, when no test file exists, and as it is: the
  second question fails with status 500 and the run still writes its summary.
\<close>

theorem setup_failures_abort_question_failures_do_not_witness:
  "healthz (example_env\<lparr>healthz := Inr 503\<rparr>) = Inr 503
   \<and> fst (run_evaluation (example_env\<lparr>healthz := Inr 503\<rparr>) example_world) = SysExit 1
   \<and> artifact (snd (run_evaluation (example_env\<lparr>healthz := Inr 503\<rparr>) example_world)) = None
   \<and> healthz (example_env\<lparr>open_rb := (\<lambda>p. None)\<rparr>) = Inr 200
   \<and> fst (upload_test_documents (example_env\<lparr>open_rb := (\<lambda>p. None)\<rparr>)
            (example_world\<lparr>trace := trace example_world @ [Probe]\<rparr>)) = []
   \<and> fst (run_evaluation (example_env\<lparr>open_rb := (\<lambda>p. None)\<rparr>) example_world) = SysExit 1
   \<and> artifact (snd (run_evaluation (example_env\<lparr>open_rb := (\<lambda>p. None)\<rparr>) example_world)) = None
   \<and> status_code (fst (example_ask 1 ''What is the term?'')) = 500
   \<and> score_of (result_of_response (example_questions ! 1) (fst (example_ask 1 ''What is the term?'')))
       = Inr 0.0
   \<and> healthz example_env = Inr 200
   \<and> fst (upload_test_documents example_env (example_world\<lparr>trace := trace example_world @ [Probe]\<rparr>))
       = [''doc-1'']
   \<and> load_eval_set example_env = example_questions
   \<and> fst (run_evaluation example_env example_world) = Returned
   \<and> (\<exists>sm. artifact (snd (run_evaluation example_env example_world)) = Some sm
          \<and> length (results sm) = 2)"
proof -
  let ?w1 = "example_world\<lparr>trace := trace example_world @ [Probe]\<rparr>"
  let ?down = "example_env\<lparr>healthz := Inr 503\<rparr>"
  let ?bare = "example_env\<lparr>open_rb := (\<lambda>p. None)\<rparr>"
  have none: "artifact example_world = None"
    by (simp add: example_world_def)
  have down: "healthz ?down = Inr 503"
    by (simp add: example_env_def)
  then have "\<exists>c. healthz ?down = Inr c \<and> c \<noteq> 200"
    by simp
  with setup_failures_abort_question_failures_do_not [OF refl refl refl, of ?down example_world]
  have d: "fst (run_evaluation ?down example_world) = SysExit 1"
    "artifact (snd (run_evaluation ?down example_world)) = None"
    unfolding none by blast+
  have bare: "healthz ?bare = Inr 200" "fst (upload_test_documents ?bare ?w1) = []"
    by code_simp+
  with setup_failures_abort_question_failures_do_not [OF refl refl refl, of ?bare example_world]
  have b: "fst (run_evaluation ?bare example_world) = SysExit 1"
    "artifact (snd (run_evaluation ?bare example_world)) = None"
    unfolding none by blast+
  have st: "status_code (fst (example_ask 1 ''What is the term?'')) = 500"
    by (simp add: example_ask_def)
  then have "status_code (fst (example_ask 1 ''What is the term?'')) \<noteq> 200"
    by simp
  with setup_failures_abort_question_failures_do_not [OF refl refl refl, of example_env example_world]
  have q: "score_of (result_of_response (example_questions ! 1) (fst (example_ask 1 ''What is the term?'')))
       = Inr 0.0"
    by blast
  have up: "healthz example_env = Inr 200" "fst (upload_test_documents example_env ?w1) = [''doc-1'']"
    "load_eval_set example_env = example_questions"
    by code_simp+
  have ne: "fst (upload_test_documents example_env ?w1) \<noteq> []" "load_eval_set example_env \<noteq> []"
    unfolding up by (simp_all add: example_questions_def)
  have len: "length (load_eval_set example_env) = 2"
    unfolding up by (simp add: example_questions_def)
  from setup_failures_abort_question_failures_do_not [OF refl refl refl, of example_env example_world]
    up(1) ne
  have "\<exists>sm. fst (run_evaluation example_env example_world) = Returned
          \<and> artifact (snd (run_evaluation example_env example_world)) = Some sm
          \<and> length (results sm) = length (load_eval_set example_env)"
    by blast
  then have r: "fst (run_evaluation example_env example_world) = Returned"
    "\<exists>sm. artifact (snd (run_evaluation example_env example_world)) = Some sm
          \<and> length (results sm) = 2"
    unfolding len by blast+
  from down d bare b st q up r show ?thesis
    by blast
qed

subsection \<open>C5: average score and pass rate\<close>

text \<open>
  Claim C5: the summary a run writes to its results file reports, for the N results of
  the run with their scores \<open>xs\<close>, the arithmetic mean of \<open>xs\<close> as \<open>average_score\<close> and
  the number of scores of at least 0.7 divided by N as \<open>pass_rate\<close>. A run with a healthy
  service, an uploaded document and a non-empty question set returns and writes this
  summary of the results of its questions; every run that returns has written such a
  summary; and the aggregation of lines 150 to 179 gives these two numbers for every
  non-empty list of results that carry a score.
\<close>

theorem run_reports_mean_and_pass_rate:
  assumes "w1 = w0\<lparr>trace := trace w0 @ [Probe]\<rparr>"
    and "docs = fst (upload_test_documents env w1)"
    and "w2 = snd (upload_test_documents env w1)"
    and "rs = fst (evaluate_all env (load_eval_set env) docs [] w2)"
  shows
    "(healthz env = Inr 200 \<and> docs \<noteq> [] \<and> load_eval_set env \<noteq> [] \<longrightarrow>
        (\<exists>sm xs. fst (run_evaluation env w0) = Returned
           \<and> artifact (snd (run_evaluation env w0)) = Some sm
           \<and> results sm = rs
           \<and> scores rs = Inr xs
           \<and> length xs = length (load_eval_set env)
           \<and> total_questions sm = length xs
           \<and> average_score sm = sum_list xs / real (length xs)
           \<and> pass_rate sm = real (length (filter (\<lambda>x. x \<ge> 0.7) xs)) / real (length xs)))
     \<and> (\<forall>w. run_evaluation env w0 = (Returned, w) \<longrightarrow>
          (\<exists>sm xs. artifact w = Some sm
             \<and> scores (results sm) = Inr xs
             \<and> xs \<noteq> []
             \<and> length xs = length (results sm)
             \<and> total_questions sm = length xs
             \<and> average_score sm = sum_list xs / real (length xs)
             \<and> pass_rate sm = real (length (filter (\<lambda>x. x \<ge> 0.7) xs)) / real (length xs)))
     \<and> (\<forall>rs' xs. scores rs' = Inr xs \<and> rs' \<noteq> [] \<longrightarrow>
          (\<exists>sm g. summarize rs' = Inr (sm, g)
             \<and> length xs = length rs'
             \<and> total_questions sm = length rs'
             \<and> average_score sm = sum_list xs / real (length rs')
             \<and> pass_rate sm = real (length (filter (\<lambda>x. x \<ge> 0.7) xs)) / real (length rs')))"
proof (intro conjI impI allI)
  assume "healthz env = Inr 200 \<and> docs \<noteq> [] \<and> load_eval_set env \<noteq> []"
  then have h: "healthz env = Inr 200" "docs \<noteq> []" "load_eval_set env \<noteq> []"
    by simp_all
  obtain xs where xs: "scores rs = Inr xs" "length xs = length (load_eval_set env)"
    unfolding assms(4) using evaluate_all_scores by blast
  have pair: "evaluate_all env (load_eval_set env) docs [] w2 =
          (rs, snd (evaluate_all env (load_eval_set env) docs [] w2))"
    unfolding assms(4) by simp
  have up: "fst (upload_test_documents env (w0\<lparr>trace := trace w0 @ [Probe]\<rparr>)) = docs"
    "snd (upload_test_documents env (w0\<lparr>trace := trace w0 @ [Probe]\<rparr>)) = w2"
    unfolding assms(1-3) by simp_all
  define n where "n = length (filter (\<lambda>x. x \<ge> 0.7) xs)"
  let ?sm = "\<lparr>average_score = sum_list xs / real (length xs),
               total_questions = length xs,
               pass_rate = real n / real (length xs),
               results = rs\<rparr>"
  note run = run_evaluation_completes(1) [OF h(1) up(1) h(2) up(2) pair xs(1) h(3), folded n_def]
  have "fst (run_evaluation env w0) = Returned
           \<and> artifact (snd (run_evaluation env w0)) = Some ?sm
           \<and> results ?sm = rs
           \<and> scores rs = Inr xs
           \<and> length xs = length (load_eval_set env)
           \<and> total_questions ?sm = length xs
           \<and> average_score ?sm = sum_list xs / real (length xs)
           \<and> pass_rate ?sm = real n / real (length xs)"
    unfolding run using xs by simp
  then show "\<exists>sm xs. fst (run_evaluation env w0) = Returned
           \<and> artifact (snd (run_evaluation env w0)) = Some sm
           \<and> results sm = rs
           \<and> scores rs = Inr xs
           \<and> length xs = length (load_eval_set env)
           \<and> total_questions sm = length xs
           \<and> average_score sm = sum_list xs / real (length xs)
           \<and> pass_rate sm = real (length (filter (\<lambda>x. x \<ge> 0.7) xs)) / real (length xs)"
    unfolding n_def by blast
next
  fix w
  assume "run_evaluation env w0 = (Returned, w)"
  from run_evaluation_reports_summary [OF this] obtain sm g where
    a: "artifact w = Some sm" and s: "summarize (results sm) = Inr (sm, g)"
    by blast
  from summarize_InrD [OF s] obtain xs where
    xs: "scores (results sm) = Inr xs" "results sm \<noteq> []" "length xs = length (results sm)"
      "total_questions sm = length (results sm)"
      "average_score sm = sum_list xs / real (length (results sm))"
      "pass_rate sm = real (length (filter (\<lambda>x. x \<ge> 0.7) xs)) / real (length (results sm))"
    by blast
  from xs(2,3) have "xs \<noteq> []" by auto
  with a xs have "artifact w = Some sm
             \<and> scores (results sm) = Inr xs
             \<and> xs \<noteq> []
             \<and> length xs = length (results sm)
             \<and> total_questions sm = length xs
             \<and> average_score sm = sum_list xs / real (length xs)
             \<and> pass_rate sm = real (length (filter (\<lambda>x. x \<ge> 0.7) xs)) / real (length xs)"
    by simp
  then show "\<exists>sm xs. artifact w = Some sm
             \<and> scores (results sm) = Inr xs
             \<and> xs \<noteq> []
             \<and> length xs = length (results sm)
             \<and> total_questions sm = length xs
             \<and> average_score sm = sum_list xs / real (length xs)
             \<and> pass_rate sm = real (length (filter (\<lambda>x. x \<ge> 0.7) xs)) / real (length xs)"
    by blast
next
  fix rs' :: "pydict list" and xs :: "real list"
  assume "scores rs' = Inr xs \<and> rs' \<noteq> []"
  then have a: "scores rs' = Inr xs" "rs' \<noteq> []" by simp_all
  from summarize_Inr [OF a] scores_length [OF a(1)]
  show "\<exists>sm g. summarize rs' = Inr (sm, g)
             \<and> length xs = length rs'
             \<and> total_questions sm = length rs'
             \<and> average_score sm = sum_list xs / real (length rs')
             \<and> pass_rate sm = real (length (filter (\<lambda>x. x \<ge> 0.7) xs)) / real (length rs')"
    by simp
qed

text \<open>
  The example run: the scores 0.35 and 0.0 are written with the average 0.175 and the
  pass rate 0.
\<close>

theorem run_reports_mean_and_pass_rate_witness:
  "healthz example_env = Inr 200
   \<and> fst (upload_test_documents example_env (example_world\<lparr>trace := trace example_world @ [Probe]\<rparr>))
       = [''doc-1'']
   \<and> load_eval_set example_env = example_questions
   \<and> fst (run_evaluation example_env example_world) = Returned
   \<and> (\<exists>sm. artifact (snd (run_evaluation example_env example_world)) = Some sm
          \<and> scores (results sm) = Inr [0.35, 0.0]
          \<and> total_questions sm = 2
          \<and> average_score sm = 0.175
          \<and> pass_rate sm = 0)"
proof -
  let ?w1 = "example_world\<lparr>trace := trace example_world @ [Probe]\<rparr>"
  let ?docs = "fst (upload_test_documents example_env ?w1)"
  let ?w2 = "snd (upload_test_documents example_env ?w1)"
  let ?rs = "fst (evaluate_all example_env (load_eval_set example_env) ?docs [] ?w2)"
  have up: "healthz example_env = Inr 200" "?docs = [''doc-1'']"
    "load_eval_set example_env = example_questions"
    by code_simp+
  have ne: "?docs \<noteq> []" "load_eval_set example_env \<noteq> []"
    unfolding up by (simp_all add: example_questions_def)
  have sc: "scores ?rs = Inr [0.35, 0.0]"
    by code_simp
  from run_reports_mean_and_pass_rate [OF refl refl refl refl, of example_env example_world]
    up(1) ne
  obtain sm xs where r: "fst (run_evaluation example_env example_world) = Returned"
    "artifact (snd (run_evaluation example_env example_world)) = Some sm"
    "results sm = ?rs" "scores ?rs = Inr xs" "total_questions sm = length xs"
    "average_score sm = sum_list xs / real (length xs)"
    "pass_rate sm = real (length (filter (\<lambda>x. x \<ge> 0.7) xs)) / real (length xs)"
    by blast
  from r(4) sc have xs: "xs = [0.35, 0.0]" by simp
  have "artifact (snd (run_evaluation example_env example_world)) = Some sm
          \<and> scores (results sm) = Inr [0.35, 0.0]
          \<and> total_questions sm = 2
          \<and> average_score sm = 0.175
          \<and> pass_rate sm = 0"
    using r(2,5,6,7) sc unfolding r(3) xs by simp
  with up r(1) show ?thesis by blast
qed

subsection \<open>C6: the fields of a result\<close>

text \<open>
  Claim C6, as the specification states it, fails for a non-success response: the result
  has the keys \<open>question_id\<close>, \<open>score\<close> and \<open>reason\<close> only.
\<close>

theorem error_result_lacks_fields_counterexample:
  "map fst (result_of_response
              \<lparr>id_q = JInt 2, question = ''What is the term?'', expected_keywords = [''two years'']\<rparr>
              \<lparr>status_code = 500, json = \<lparr>answer = None, citations = None\<rparr>\<rparr>)
     = [''question_id'', ''score'', ''reason'']
   \<and> ''question'' \<notin> set (map fst (result_of_response
              \<lparr>id_q = JInt 2, question = ''What is the term?'', expected_keywords = [''two years'']\<rparr>
              \<lparr>status_code = 500, json = \<lparr>answer = None, citations = None\<rparr>\<rparr>))
   \<and> ''has_citations'' \<notin> set (map fst (result_of_response
              \<lparr>id_q = JInt 2, question = ''What is the term?'', expected_keywords = [''two years'']\<rparr>
              \<lparr>status_code = 500, json = \<lparr>answer = None, citations = None\<rparr>\<rparr>))"
  by (simp add: result_keys)


text \<open>
  Claim C6, amended: the result for a response with status 200 has exactly the fields
  \<open>question_id\<close>, \<open>question\<close>, \<open>answer\<close>, \<open>score\<close>, \<open>matched_keywords\<close> and
  \<open>has_citations\<close>; the result for any other status has exactly \<open>question_id\<close>,
  \<open>score\<close> and \<open>reason\<close>.
\<close>

theorem result_fields_by_status:
  "(status_code (fst (ask env (service w) (question q))) = 200 \<longrightarrow>
      map fst (fst (evaluate_question env q docs w)) =
        [''question_id'', ''question'', ''answer'', ''score'', ''matched_keywords'', ''has_citations''])
   \<and> (status_code (fst (ask env (service w) (question q))) \<noteq> 200 \<longrightarrow>
      map fst (fst (evaluate_question env q docs w)) = [''question_id'', ''score'', ''reason''])"
  by (simp add: evaluate_question_fst result_keys)


text \<open>
  Both kinds of result in the example run.
\<close>

theorem result_fields_by_status_witness:
  "status_code (fst (ask example_env (service example_world) (question (example_questions ! 0)))) = 200
   \<and> map fst (fst (evaluate_question example_env (example_questions ! 0) [''doc-1''] example_world)) =
        [''question_id'', ''question'', ''answer'', ''score'', ''matched_keywords'', ''has_citations'']
   \<and> status_code (fst (ask example_env (service example_world) (question (example_questions ! 1)))) \<noteq> 200
   \<and> map fst (fst (evaluate_question example_env (example_questions ! 1) [''doc-1''] example_world)) =
        [''question_id'', ''score'', ''reason'']"
  using result_fields_by_status [of example_env example_world "example_questions ! 0" "[''doc-1'']"]
    result_fields_by_status [of example_env example_world "example_questions ! 1" "[''doc-1'']"]
  by (simp add: example_env_def example_ask_def example_questions_def example_world_def)

subsection \<open>C7: the score is between 0 and 1\<close>

text \<open>
  Claim C7: whatever the service answers, the result of \<^verbatim>\<open>evaluate_question\<close> carries a
  score between 0 and 1.
\<close>

theorem score_in_unit_interval:
  "\<exists>x. score_of (fst (evaluate_question env q document_ids w)) = Inr x \<and> 0 \<le> x \<and> x \<le> 1"
  unfolding evaluate_question_fst by (rule score_of_result_bounds)

subsection \<open>C8: grade bands\<close>




subsection \<open>C9: results in the order of the questions\<close>

text \<open>
  Claim C9: the loop produces one result per question, the i-th result carries the id of
  the i-th question, the requests go out in the order of the questions, and the results
  of a question set are those of any initial part followed by those of the rest,
  evaluated in the state the initial part has left.
\<close>

theorem results_follow_question_order:
  "length (fst (evaluate_all env qs docs [] w)) = length qs
   \<and> (\<forall>i < length qs.
         map_of (fst (evaluate_all env qs docs [] w) ! i) ''question_id'' = Some (id_q (qs ! i)))
   \<and> trace (snd (evaluate_all env qs docs [] w)) = trace w @ map (\<lambda>q. Ask (question q)) qs
   \<and> (\<forall>qs1 qs2. qs = qs1 @ qs2 \<longrightarrow>
         fst (evaluate_all env qs docs [] w) =
           fst (evaluate_all env qs1 docs [] w)
           @ fst (evaluate_all env qs2 docs [] (snd (evaluate_all env qs1 docs [] w))))"
  by (simp add: evaluate_all_length evaluate_all_question_id evaluate_all_trace evaluate_all_append)


text \<open>
  The two questions of the example run.
\<close>

theorem results_follow_question_order_witness:
  "length (fst (evaluate_all example_env example_questions [''doc-1''] [] example_world)) = 2
   \<and> map_of (fst (evaluate_all example_env example_questions [''doc-1''] [] example_world) ! 1)
        ''question_id'' = Some (JInt 2)
   \<and> trace (snd (evaluate_all example_env example_questions [''doc-1''] [] example_world)) =
        [Ask ''Which law governs the agreement?'', Ask ''What is the term?'']"
  using results_follow_question_order [of example_env example_questions "[''doc-1'']" example_world]
  by (simp add: example_questions_def example_world_def)

subsection \<open>C10: the document ids do not matter\<close>

text \<open>
  Claim C10: two calls of \<^verbatim>\<open>evaluate_question\<close> that differ only in the document ids
  give the same result and leave the same state.
\<close>

theorem evaluate_question_ignores_document_ids:
  "evaluate_question env q document_ids w = evaluate_question env q document_ids' w"
  by (simp add: evaluate_question_def)


end
